theory Spec2Isabelle
  imports Main
begin

section \<open>Python values and the operations the builder relies on\<close>

text \<open>
  The module \<^verbatim>\<open>dockerfile_py/dockerfile.py\<close> defines one class, \<^verbatim>\<open>Dockerfile\<close>, whose
  instances hold a list of strings \<^verbatim>\<open>_lines\<close>. Python checks no type annotation at run
  time, so the values that reach the dynamically typed operations of the class
  (\<^verbatim>\<open>isinstance\<close>, \<^verbatim>\<open>+\<close> on sequences, \<^verbatim>\<open>json.dumps\<close>) are modelled by a datatype of
  Python values:
  \<^item> \<^verbatim>\<open>None\<close>, booleans, integers, strings, lists and tuples;
  \<^item> \<open>PObject cls\<close>, an instance of any other class \<^verbatim>\<open>cls\<close> that the JSON encoder does
    not know (\<^verbatim>\<open>bytes\<close>, \<^verbatim>\<open>set\<close>, \<^verbatim>\<open>object\<close>, ...);
  \<^item> \<open>PSelfList xs ys\<close>, a list object that contains itself: its items are \<open>xs\<close>, then
    the list itself, then \<open>ys\<close>.
  Floats, dictionaries and reference cycles through more than one list are outside this
  universe, and so are the interpreter's limits on memory and recursion depth.

  A Python \<^verbatim>\<open>str\<close> is modelled as a \<^typ>\<open>string\<close>; a \<^typ>\<open>char\<close> stands for the code point
  of the same number, so the strings covered are those over U+0000 .. U+00FF.

  An exception is its class with its message.
\<close>

datatype exc = ValueError string | TypeError string

datatype pyval =
    PNone
  | PBool bool
  | PInt int
  | PStr string
  | PList "pyval list"
  | PTuple "pyval list"
  | PObject string
  | PSelfList "pyval list" "pyval list"

fun type_name :: "pyval \<Rightarrow> string" where
  "type_name PNone = ''NoneType''"
| "type_name (PBool b) = ''bool''"
| "type_name (PInt i) = ''int''"
| "type_name (PStr s) = ''str''"
| "type_name (PList xs) = ''list''"
| "type_name (PTuple xs) = ''tuple''"
| "type_name (PObject cls) = cls"
| "type_name (PSelfList xs ys) = ''list''"

fun isinstance_str :: "pyval \<Rightarrow> bool" where
  "isinstance_str (PStr s) = True"
| "isinstance_str _ = False"

fun isinstance_list :: "pyval \<Rightarrow> bool" where
  "isinstance_list (PList xs) = True"
| "isinstance_list (PSelfList xs ys) = True"
| "isinstance_list _ = False"

fun list_items :: "pyval \<Rightarrow> pyval list" where
  \<comment> \<open>the items of a list object, in order\<close>
  "list_items (PList xs) = xs"
| "list_items (PSelfList xs ys) = xs @ [PSelfList xs ys] @ ys"
| "list_items _ = []"

subsection \<open>\<^verbatim>\<open>str(int)\<close>\<close>

text \<open>
  \<open>str_int\<close> is the decimal text of an integer. CPython (3.11 and later, and the security
  releases of the earlier branches) refuses to convert an integer of more than 4300
  decimal digits, the default of \<^verbatim>\<open>sys.int_max_str_digits\<close>, and raises \<^verbatim>\<open>ValueError\<close>;
  \<open>int_repr\<close> is the conversion with this check, as \<^verbatim>\<open>str\<close>, \<^verbatim>\<open>repr\<close>, an f-string and the
  JSON encoder perform it.
\<close>

definition digit_char :: "nat \<Rightarrow> char" where
  "digit_char d = ''0123456789abcdef'' ! d"

function str_nat :: "nat \<Rightarrow> string" where
  "str_nat n = (if n < 10 then [digit_char n] else str_nat (n div 10) @ [digit_char (n mod 10)])"
  by pat_completeness auto
termination
  by (relation "measure (\<lambda>n. n)") auto

declare str_nat.simps [simp del]

definition str_int :: "int \<Rightarrow> string" where
  "str_int i = (if i < 0 then CHR ''-'' # str_nat (nat (- i)) else str_nat (nat i))"

definition int_max_str_digits :: nat where
  "int_max_str_digits = 4300"

definition int_repr :: "int \<Rightarrow> exc + string" where
  "int_repr i =
     (if int_max_str_digits < length (str_nat (nat \<bar>i\<bar>))
      then Inl (ValueError (''Exceeds the limit (4300 digits) for integer string conversion; ''
                  @ ''use sys.set_int_max_str_digits() to increase the limit''))
      else Inr (str_int i))"

subsection \<open>\<^verbatim>\<open>sep.join(xs)\<close>\<close>

fun str_join :: "string \<Rightarrow> string list \<Rightarrow> string" where
  "str_join sep [] = []"
| "str_join sep [x] = x"
| "str_join sep (x # y # ys) = x @ sep @ str_join sep (y # ys)"

subsection \<open>\<^verbatim>\<open>json.dumps\<close> with its default arguments\<close>

text \<open>
  With \<^verbatim>\<open>ensure_ascii=True\<close> the encoder of the standard library replaces every match of
  the regular expression \<^verbatim>\<open>([\\"]|[^\ -~])\<close> in a string: the backslash, the double quote
  and the five characters \<^verbatim>\<open>\b \f \n \r \t\<close> by their two-character escapes, every other
  character outside the range from space to tilde by \<^verbatim>\<open>\uXXXX\<close> with four lower-case
  hexadecimal digits. The result is enclosed in double quotes. Items of an array are
  separated by a comma and a space.

  The encoder walks a list or tuple from left to right and the first exception ends the
  call: \<^verbatim>\<open>TypeError\<close> on an object of a class it does not know, \<^verbatim>\<open>ValueError\<close> on an integer
  that \<^verbatim>\<open>repr\<close> refuses, \<^verbatim>\<open>ValueError\<close> when it meets a list it is already inside.
\<close>

definition ESCAPE_ASCII_matches :: "char \<Rightarrow> bool" where
  "ESCAPE_ASCII_matches c \<longleftrightarrow>
     c = CHR 0x5C \<or> c = CHR 0x22 \<or>
     (of_char c :: nat) < of_char (CHR '' '') \<or> (of_char (CHR ''~'') :: nat) < of_char c"

definition replace_char :: "char \<Rightarrow> string" where
  "replace_char c =
     (if c = CHR 0x5C then [CHR 0x5C, CHR 0x5C]
      else if c = CHR 0x22 then [CHR 0x5C, CHR 0x22]
      else if c = CHR 0x08 then [CHR 0x5C, CHR ''b'']
      else if c = CHR 0x0C then [CHR 0x5C, CHR ''f'']
      else if c = CHR 0x0A then [CHR 0x5C, CHR ''n'']
      else if c = CHR 0x0D then [CHR 0x5C, CHR ''r'']
      else if c = CHR 0x09 then [CHR 0x5C, CHR ''t'']
      else [CHR 0x5C, CHR ''u'', CHR ''0'', CHR ''0'',
            digit_char ((of_char c :: nat) div 16), digit_char ((of_char c :: nat) mod 16)])"

definition py_encode_basestring_ascii :: "string \<Rightarrow> string" where
  "py_encode_basestring_ascii s =
     [CHR 0x22] @ concat (map (\<lambda>c. if ESCAPE_ASCII_matches c then replace_char c else [c]) s)
       @ [CHR 0x22]"

fun json_dumps :: "pyval \<Rightarrow> exc + string"
  and json_items :: "pyval list \<Rightarrow> exc + string list" where
  "json_dumps PNone = Inr ''null''"
| "json_dumps (PBool b) = Inr (if b then ''true'' else ''false'')"
| "json_dumps (PInt i) = int_repr i"
| "json_dumps (PStr s) = Inr (py_encode_basestring_ascii s)"
| "json_dumps (PList xs) =
     (case json_items xs of
        Inl e \<Rightarrow> Inl e
      | Inr ss \<Rightarrow> Inr (''['' @ str_join '', '' ss @ '']''))"
| "json_dumps (PTuple xs) =
     (case json_items xs of
        Inl e \<Rightarrow> Inl e
      | Inr ss \<Rightarrow> Inr (''['' @ str_join '', '' ss @ '']''))"
| "json_dumps (PObject cls) =
     Inl (TypeError (''Object of type '' @ cls @ '' is not JSON serializable''))"
| "json_dumps (PSelfList xs ys) =
     (case json_items xs of
        Inl e \<Rightarrow> Inl e
      | Inr ss \<Rightarrow> Inl (ValueError ''Circular reference detected''))"
| "json_items [] = Inr []"
| "json_items (x # xs) =
     (case json_dumps x of
        Inl e \<Rightarrow> Inl e
      | Inr s \<Rightarrow> (case json_items xs of Inl e \<Rightarrow> Inl e | Inr ss \<Rightarrow> Inr (s # ss)))"

subsection \<open>\<^verbatim>\<open>+\<close> with a list as its left operand\<close>

text \<open>
  \<^verbatim>\<open>xs + other\<close> is a new list of the items of both when \<^verbatim>\<open>other\<close> is a list, and raises
  \<^verbatim>\<open>TypeError\<close> for every other value of the universe above, a tuple included.
\<close>

definition list_concat :: "pyval list \<Rightarrow> pyval \<Rightarrow> exc + pyval" where
  \<open>list_concat xs other =
     (if isinstance_list other then Inr (PList (xs @ list_items other))
      else Inl (TypeError (''can only concatenate list (not "'' @ type_name other
                  @ ''") to list'')))\<close>

text \<open>
  The extra positional arguments \<^verbatim>\<open>*args\<close> of a call arrive in the method as a tuple.
\<close>

definition star_args :: "string list \<Rightarrow> pyval" where
  "star_args args = PTuple (map PStr args)"

section \<open>The store: \<^verbatim>\<open>Dockerfile\<close> objects and their list objects\<close>

text \<open>
  A \<^verbatim>\<open>Dockerfile\<close> object has one attribute, \<^verbatim>\<open>_lines\<close>, a reference to a list object;
  list objects are mutated in place. The store keeps both levels apart, so that two
  builders sharing one list object could be expressed: \<open>obj_lines\<close> gives the list
  object an attribute refers to, \<open>list_val\<close> the contents of a list object. Objects are
  allocated in order; \<open>nobjs\<close> and \<open>nlists\<close> count the objects allocated so far.
\<close>

type_synonym addr = nat

record heap =
  nobjs :: nat
  nlists :: nat
  obj_lines :: "addr \<Rightarrow> addr"
  list_val :: "addr \<Rightarrow> string list"

definition empty_heap :: heap where
  "empty_heap = \<lparr>nobjs = 0, nlists = 0, obj_lines = (\<lambda>_. 0), list_val = (\<lambda>_. [])\<rparr>"

definition new_list :: "heap \<Rightarrow> addr \<times> heap" where
  \<comment> \<open>\<^verbatim>\<open>[]\<close>: a fresh, empty list object\<close>
  "new_list h = (nlists h, h\<lparr>nlists := Suc (nlists h), list_val := (list_val h)(nlists h := [])\<rparr>)"

definition list_append :: "addr \<Rightarrow> string \<Rightarrow> heap \<Rightarrow> heap" where
  \<comment> \<open>\<^verbatim>\<open>l.append(x)\<close>\<close>
  "list_append l x h = h\<lparr>list_val := (list_val h)(l := list_val h l @ [x])\<rparr>"

definition list_iadd :: "addr \<Rightarrow> addr \<Rightarrow> heap \<Rightarrow> addr \<times> heap" where
  \<comment> \<open>\<^verbatim>\<open>l.__iadd__(m)\<close>: extends \<^verbatim>\<open>l\<close> in place by the items \<^verbatim>\<open>m\<close> has at the call and
      returns \<^verbatim>\<open>l\<close> (also when \<^verbatim>\<open>m\<close> is \<^verbatim>\<open>l\<close> itself)\<close>
  "list_iadd l m h = (l, h\<lparr>list_val := (list_val h)(l := list_val h l @ list_val h m)\<rparr>)"

definition get_lines :: "addr \<Rightarrow> heap \<Rightarrow> string list" where
  \<comment> \<open>the contents of \<^verbatim>\<open>self._lines\<close>\<close>
  "get_lines self h = list_val h (obj_lines h self)"

definition append_line :: "addr \<Rightarrow> string \<Rightarrow> heap \<Rightarrow> heap" where
  \<comment> \<open>\<^verbatim>\<open>self._lines.append(line)\<close>\<close>
  "append_line self line h = list_append (obj_lines h self) line h"

section \<open>The class \<^verbatim>\<open>Dockerfile\<close>\<close>

text \<open>
  Every method takes the address of \<^verbatim>\<open>self\<close>, its arguments and the store, and returns the
  exception it raised, if any, with the store it leaves behind. Arguments annotated
  \<^verbatim>\<open>str\<close> are strings, \<^verbatim>\<open>Optional[str]\<close> arguments are options, the \<^verbatim>\<open>src\<close> of \<^verbatim>\<open>COPY\<close>
  is any Python value. \<^verbatim>\<open>as_fileobj\<close>, which wraps the result of \<^verbatim>\<open>__str__\<close> in a
  \<^verbatim>\<open>StringIO\<close>, is left out.
\<close>

definition Dockerfile_init :: "string option \<Rightarrow> string option \<Rightarrow> heap \<Rightarrow> addr \<times> heap" where
  "Dockerfile_init syntax escape h =
     (let self = nobjs h;
          (l, h1) = new_list h;
          h2 = h1\<lparr>nobjs := Suc self, obj_lines := (obj_lines h1)(self := l)\<rparr>;
          h3 = (case syntax of Some s \<Rightarrow> append_line self (''# syntax: '' @ s) h2 | None \<Rightarrow> h2);
          h4 = (case escape of Some e \<Rightarrow> append_line self (''# escape: '' @ e) h3 | None \<Rightarrow> h3)
      in (self, h4))"

definition Dockerfile_str :: "addr \<Rightarrow> heap \<Rightarrow> string \<times> heap" where
  \<comment> \<open>\<^verbatim>\<open>__str__\<close>\<close>
  "Dockerfile_str self h = (str_join '''' (get_lines self h), h)"

definition include_dockerfile :: "addr \<Rightarrow> addr \<Rightarrow> heap \<Rightarrow> exc option \<times> heap" where
  \<comment> \<open>\<^verbatim>\<open>include\<close>: \<^verbatim>\<open>self._lines += dockerfile._lines\<close> calls \<^verbatim>\<open>__iadd__\<close> and binds the
      attribute to what it returns\<close>
  "include_dockerfile self dockerfile h =
     (let (l, h1) = list_iadd (obj_lines h self) (obj_lines h dockerfile) h
      in (None, h1\<lparr>obj_lines := (obj_lines h1)(self := l)\<rparr>))"

definition ADD :: "addr \<Rightarrow> string \<Rightarrow> string \<Rightarrow> string option \<Rightarrow> heap \<Rightarrow> exc option \<times> heap" where
  "ADD self src dest chown h =
     (let chown_param = (case chown of Some c \<Rightarrow> ''--chown='' @ c @ '' '' | None \<Rightarrow> '''')
      in (None, append_line self (''ADD '' @ chown_param @ src @ '' '' @ dest) h))"

definition ARG :: "addr \<Rightarrow> string \<Rightarrow> string option \<Rightarrow> heap \<Rightarrow> exc option \<times> heap" where
  "ARG self varname default_value h =
     (case (case default_value of
              Some d \<Rightarrow>
                (case json_dumps (PStr d) of Inl e \<Rightarrow> Inl e | Inr quoted \<Rightarrow> Inr (''='' @ quoted))
            | None \<Rightarrow> Inr '''') of
        Inl e \<Rightarrow> (Some e, h)
      | Inr default_param \<Rightarrow> (None, append_line self (''ARG '' @ varname @ default_param) h))"

definition COPY ::
  "addr \<Rightarrow> pyval \<Rightarrow> string \<Rightarrow> string option \<Rightarrow> string option \<Rightarrow> heap \<Rightarrow> exc option \<times> heap" where
  "COPY self src dest from_stage chown h =
     (let from_param = (case from_stage of Some f \<Rightarrow> ''--from='' @ f @ '' '' | None \<Rightarrow> '''');
          chown_param = (case chown of Some c \<Rightarrow> ''--chown='' @ c @ '' '' | None \<Rightarrow> '''')
      in case src of
           PStr s \<Rightarrow>
             (let src_and_dest = s @ '' '' @ dest
              in (None, append_line self (''COPY '' @ from_param @ chown_param @ src_and_dest) h))
         | _ \<Rightarrow>
             if isinstance_list src then
               (case list_concat (list_items src) (PList [PStr dest]) of
                  Inl e \<Rightarrow> (Some e, h)
                | Inr v \<Rightarrow>
                    (case json_dumps v of
                       Inl e \<Rightarrow> (Some e, h)
                     | Inr src_and_dest \<Rightarrow>
                         (None,
                          append_line self
                            (''COPY '' @ from_param @ chown_param @ src_and_dest) h)))
             else (Some (ValueError ''src must be of type str or list''), h))"

definition CMD :: "addr \<Rightarrow> string \<Rightarrow> string list \<Rightarrow> heap \<Rightarrow> exc option \<times> heap" where
  "CMD self command args h =
     (if length args = 0 then (None, append_line self (''CMD '' @ command) h)
      else case list_concat [PStr command] (star_args args) of
             Inl e \<Rightarrow> (Some e, h)
           | Inr v \<Rightarrow>
               (case json_dumps v of
                  Inl e \<Rightarrow> (Some e, h)
                | Inr params \<Rightarrow> (None, append_line self (''CMD '' @ params) h)))"

definition ENTRYPOINT :: "addr \<Rightarrow> string \<Rightarrow> string list \<Rightarrow> heap \<Rightarrow> exc option \<times> heap" where
  "ENTRYPOINT self command args h =
     (if length args = 0 then (None, append_line self (''ENTRYPOINT '' @ command) h)
      else case list_concat [PStr command] (star_args args) of
             Inl e \<Rightarrow> (Some e, h)
           | Inr v \<Rightarrow>
               (case json_dumps v of
                  Inl e \<Rightarrow> (Some e, h)
                | Inr params \<Rightarrow> (None, append_line self (''ENTRYPOINT '' @ params) h)))"

definition ENV :: "addr \<Rightarrow> string \<Rightarrow> string \<Rightarrow> heap \<Rightarrow> exc option \<times> heap" where
  "ENV self varname val h =
     (case json_dumps (PStr val) of
        Inl e \<Rightarrow> (Some e, h)
      | Inr quoted \<Rightarrow> (None, append_line self (''ENV '' @ varname @ ''='' @ quoted) h))"

definition EXPOSE :: "addr \<Rightarrow> int \<Rightarrow> string \<Rightarrow> heap \<Rightarrow> exc option \<times> heap" where
  "EXPOSE self port protocol h =
     (case int_repr port of
        Inl e \<Rightarrow> (Some e, h)
      | Inr p \<Rightarrow> (None, append_line self (''EXPOSE '' @ p @ ''/'' @ protocol) h))"

definition FROM :: "addr \<Rightarrow> string \<Rightarrow> string option \<Rightarrow> string option \<Rightarrow> heap \<Rightarrow> exc option \<times> heap" where
  "FROM self base_image as_image platform h =
     (let platform_param = (case platform of Some p \<Rightarrow> ''--platform='' @ p | None \<Rightarrow> '''');
          as_image_param = (case as_image of Some a \<Rightarrow> '' as '' @ a | None \<Rightarrow> '''')
      in (None, append_line self (''FROM '' @ platform_param @ base_image @ as_image_param) h))"

definition LABEL :: "addr \<Rightarrow> string \<Rightarrow> string \<Rightarrow> heap \<Rightarrow> exc option \<times> heap" where
  "LABEL self key val h =
     (case json_dumps (PStr key) of
        Inl e \<Rightarrow> (Some e, h)
      | Inr quoted_key \<Rightarrow>
          (case json_dumps (PStr val) of
             Inl e \<Rightarrow> (Some e, h)
           | Inr quoted_val \<Rightarrow>
               (None, append_line self (''LABEL '' @ quoted_key @ ''='' @ quoted_val) h)))"

definition RUN :: "addr \<Rightarrow> string \<Rightarrow> string list \<Rightarrow> heap \<Rightarrow> exc option \<times> heap" where
  "RUN self command args h =
     (if length args = 0 then (None, append_line self (''RUN '' @ command) h)
      else case list_concat [PStr command] (star_args args) of
             Inl e \<Rightarrow> (Some e, h)
           | Inr v \<Rightarrow>
               (case json_dumps v of
                  Inl e \<Rightarrow> (Some e, h)
                | Inr params \<Rightarrow> (None, append_line self (''RUN '' @ params) h)))"

definition SHELL :: "addr \<Rightarrow> string \<Rightarrow> string list \<Rightarrow> heap \<Rightarrow> exc option \<times> heap" where
  "SHELL self executable params h =
     (case list_concat [PStr executable] (star_args params) of
        Inl e \<Rightarrow> (Some e, h)
      | Inr v \<Rightarrow>
          (case json_dumps v of
             Inl e \<Rightarrow> (Some e, h)
           | Inr array \<Rightarrow> (None, append_line self (''SHELL '' @ array) h)))"

definition USER :: "addr \<Rightarrow> string \<Rightarrow> string option \<Rightarrow> heap \<Rightarrow> exc option \<times> heap" where
  "USER self user grp h =
     (let group_param = (case grp of Some g \<Rightarrow> '':'' @ g | None \<Rightarrow> '''')
      in (None, append_line self (''USER '' @ user @ group_param) h))"

definition VOLUME :: "addr \<Rightarrow> string \<Rightarrow> string list \<Rightarrow> heap \<Rightarrow> exc option \<times> heap" where
  "VOLUME self path additional_paths h =
     (case list_concat [PStr path] (star_args additional_paths) of
        Inl e \<Rightarrow> (Some e, h)
      | Inr v \<Rightarrow>
          (case json_dumps v of
             Inl e \<Rightarrow> (Some e, h)
           | Inr paths \<Rightarrow> (None, append_line self (''VOLUME '' @ paths) h)))"

definition WORKDIR :: "addr \<Rightarrow> string \<Rightarrow> heap \<Rightarrow> exc option \<times> heap" where
  "WORKDIR self path h = (None, append_line self (''WORKDIR '' @ path) h)"

section \<open>Calls and sequences of calls\<close>

text \<open>
  A call of a directive method with its arguments, and what calling it on the builder
  \<open>self\<close> does. \<open>Include d\<close> is \<^verbatim>\<open>self.include(d)\<close>. A sequence of calls runs in order
  and stops at the first exception, which propagates to the caller.
\<close>

datatype call =
    Call_ADD string string "string option"
  | Call_ARG string "string option"
  | Call_COPY pyval string "string option" "string option"
  | Call_CMD string "string list"
  | Call_ENTRYPOINT string "string list"
  | Call_ENV string string
  | Call_EXPOSE int string
  | Call_FROM string "string option" "string option"
  | Call_LABEL string string
  | Call_RUN string "string list"
  | Call_SHELL string "string list"
  | Call_USER string "string option"
  | Call_VOLUME string "string list"
  | Call_WORKDIR string

fun exec :: "addr \<Rightarrow> call \<Rightarrow> heap \<Rightarrow> exc option \<times> heap" where
  "exec self (Call_ADD src dest chown) h = ADD self src dest chown h"
| "exec self (Call_ARG varname default_value) h = ARG self varname default_value h"
| "exec self (Call_COPY src dest from_stage chown) h = COPY self src dest from_stage chown h"
| "exec self (Call_CMD command args) h = CMD self command args h"
| "exec self (Call_ENTRYPOINT command args) h = ENTRYPOINT self command args h"
| "exec self (Call_ENV varname val) h = ENV self varname val h"
| "exec self (Call_EXPOSE port protocol) h = EXPOSE self port protocol h"
| "exec self (Call_FROM base_image as_image platform) h = FROM self base_image as_image platform h"
| "exec self (Call_LABEL key val) h = LABEL self key val h"
| "exec self (Call_RUN command args) h = RUN self command args h"
| "exec self (Call_SHELL executable params) h = SHELL self executable params h"
| "exec self (Call_USER user grp) h = USER self user grp h"
| "exec self (Call_VOLUME path additional_paths) h = VOLUME self path additional_paths h"
| "exec self (Call_WORKDIR path) h = WORKDIR self path h"

fun is_COPY :: "call \<Rightarrow> bool" where
  "is_COPY (Call_COPY src dest from_stage chown) = True"
| "is_COPY _ = False"

datatype op = Directive call | Include addr

fun apply_op :: "addr \<Rightarrow> op \<Rightarrow> heap \<Rightarrow> exc option \<times> heap" where
  "apply_op self (Directive c) h = exec self c h"
| "apply_op self (Include d) h = include_dockerfile self d h"

fun run :: "addr \<Rightarrow> op list \<Rightarrow> heap \<Rightarrow> exc option \<times> heap" where
  "run self [] h = (None, h)"
| "run self (x # xs) h =
     (case apply_op self x h of
        (None, h') \<Rightarrow> run self xs h'
      | (Some e, h') \<Rightarrow> (Some e, h'))"

subsection \<open>The annotation of the \<^verbatim>\<open>src\<close> argument of \<^verbatim>\<open>COPY\<close>\<close>

text \<open>
  \<^verbatim>\<open>src: Union[str, List[str]]\<close>: a string, or a list all of whose items are strings.
  \<open>isinstance_str\<close> and \<open>isinstance_list\<close> above are the two tests \<^verbatim>\<open>COPY\<close> makes.
\<close>

fun is_list_of_str :: "pyval \<Rightarrow> bool" where
  "is_list_of_str (PList xs) = list_all isinstance_str xs"
| "is_list_of_str _ = False"

subsection \<open>Well-formed stores\<close>

text \<open>
  In a store built by the constructor, every allocated \<^verbatim>\<open>Dockerfile\<close> object refers to an
  allocated list object, and no two of them refer to the same one.
\<close>

definition wf_heap :: "heap \<Rightarrow> bool" where
  "wf_heap h \<longleftrightarrow>
     list_all (\<lambda>a. obj_lines h a < nlists h) [0..<nobjs h] \<and>
     distinct (map (obj_lines h) [0..<nobjs h])"

subsection \<open>A store with two builders\<close>

text \<open>
  \<^verbatim>\<open>a = Dockerfile(syntax="docker/dockerfile:1"); b = Dockerfile(); b.RUN("make")\<close>,
  starting from the empty store: \<^verbatim>\<open>a\<close> is object 0 and \<^verbatim>\<open>b\<close> is object 1.
\<close>

definition two_builders :: heap where
  "two_builders =
     snd (RUN 1 ''make'' []
       (snd (Dockerfile_init None None
         (snd (Dockerfile_init (Some ''docker/dockerfile:1'') None empty_heap)))))"

section \<open>Basic facts about the store and the library operations\<close>

lemma str_join_empty_sep: "str_join [] xs = concat xs"
  by (induction "[]::string" xs rule: str_join.induct) simp_all

lemma get_lines_append_line [simp]:
  "get_lines self (append_line self x h) = get_lines self h @ [x]"
  by (simp add: get_lines_def append_line_def list_append_def)

lemma obj_lines_append_line [simp]: "obj_lines (append_line self x h) = obj_lines h"
  by (simp add: append_line_def list_append_def)

lemma nobjs_append_line [simp]: "nobjs (append_line self x h) = nobjs h"
  by (simp add: append_line_def list_append_def)

lemma nlists_append_line [simp]: "nlists (append_line self x h) = nlists h"
  by (simp add: append_line_def list_append_def)

lemma list_concat_star_args [simp]:
  \<open>list_concat xs (star_args args) =
     Inl (TypeError ''can only concatenate list (not "tuple") to list'')\<close>
  by (simp add: list_concat_def star_args_def)

lemma list_concat_PList [simp]: "list_concat xs (PList ys) = Inr (PList (xs @ ys))"
  by (simp add: list_concat_def)

text \<open>On strings and on lists of strings \<^verbatim>\<open>json.dumps\<close> never raises.\<close>

lemma json_items_strs [simp]:
  "json_items (map PStr xs) = Inr (map py_encode_basestring_ascii xs)"
  by (induction xs) simp_all

lemma json_dumps_strs:
  "json_dumps (PList (map PStr xs)) =
     Inr (''['' @ str_join '', '' (map py_encode_basestring_ascii xs) @ '']'')"
  by simp

text \<open>
  The exceptions of \<^verbatim>\<open>json.dumps\<close> are its own: none of them is the \<^verbatim>\<open>ValueError\<close> that
  \<^verbatim>\<open>COPY\<close> raises.
\<close>

lemma json_error_not_src_error:
  "json_dumps v = Inl e \<Longrightarrow> e \<noteq> ValueError ''src must be of type str or list''"
  "json_items vs = Inl e \<Longrightarrow> e \<noteq> ValueError ''src must be of type str or list''"
  by (induction v and vs rule: json_dumps_json_items.induct)
    (auto simp add: int_repr_def split: sum.splits if_splits)

text \<open>
  A call either appends one line, the same whatever the store, or raises and leaves the
  store as it was.
\<close>

lemma exec_cases:
  "(\<exists>l. \<forall>h. exec self c h = (None, append_line self l h)) \<or>
   (\<exists>e. \<forall>h. exec self c h = (Some e, h))"
proof (cases c)
  case (Call_COPY src dest from_stage chown)
  then show ?thesis
    by (cases src) (auto simp add: COPY_def Let_def simp del: json_dumps.simps split: sum.splits)
next
  case (Call_CMD command args)
  then show ?thesis by (cases args) (auto simp add: CMD_def)
next
  case (Call_ENTRYPOINT command args)
  then show ?thesis by (cases args) (auto simp add: ENTRYPOINT_def)
next
  case (Call_RUN command args)
  then show ?thesis by (cases args) (auto simp add: RUN_def)
qed (auto simp add: ADD_def ARG_def ENV_def EXPOSE_def FROM_def LABEL_def SHELL_def USER_def
       VOLUME_def WORKDIR_def Let_def split: sum.splits option.splits)

lemma exec_success:
  "fst (exec self c h) = None \<Longrightarrow>
     \<exists>l. \<forall>h0. exec self c h0 = (None, append_line self l h0)"
  using exec_cases [of self c] by auto

section \<open>The shell and exec forms of \<^verbatim>\<open>CMD\<close>, \<^verbatim>\<open>RUN\<close> and \<^verbatim>\<open>ENTRYPOINT\<close>\<close>

text \<open>The shell form, taken when no extra argument is given, appends the bare command.\<close>

lemma shell_form:
  "CMD self command [] h = (None, append_line self (''CMD '' @ command) h) \<and>
   RUN self command [] h = (None, append_line self (''RUN '' @ command) h) \<and>
   ENTRYPOINT self command [] h = (None, append_line self (''ENTRYPOINT '' @ command) h) \<and>
   get_lines self (snd (CMD self ''echo hi'' [] h)) = get_lines self h @ [''CMD echo hi'']"
  by (simp add: CMD_def RUN_def ENTRYPOINT_def)

text \<open>
  C1. The claim: with extra arguments, \<^verbatim>\<open>CMD\<close>, \<^verbatim>\<open>RUN\<close> and \<^verbatim>\<open>ENTRYPOINT\<close> append the
  keyword followed by the JSON array of \<^verbatim>\<open>[command] + args\<close>, and \<^verbatim>\<open>CMD("echo", "hi")\<close>
  appends \<^verbatim>\<open>CMD ["echo", "hi"]\<close>. What the code does: \<^verbatim>\<open>args\<close> is a tuple, so
  \<^verbatim>\<open>[command] + args\<close> raises \<^verbatim>\<open>TypeError\<close> before anything is appended; this holds for
  \<^verbatim>\<open>CMD("echo", "hi")\<close> and for every call with at least one extra argument.
\<close>

theorem exec_form_raises:
  \<open>CMD self ''echo'' [''hi''] h =
     (Some (TypeError ''can only concatenate list (not "tuple") to list''), h) \<and>
   CMD self command (a # args) h =
     (Some (TypeError ''can only concatenate list (not "tuple") to list''), h) \<and>
   ENTRYPOINT self command (a # args) h =
     (Some (TypeError ''can only concatenate list (not "tuple") to list''), h) \<and>
   RUN self command (a # args) h =
     (Some (TypeError ''can only concatenate list (not "tuple") to list''), h)\<close>
  by (simp add: CMD_def ENTRYPOINT_def RUN_def)

section \<open>\<^verbatim>\<open>SHELL\<close> and \<^verbatim>\<open>VOLUME\<close>\<close>

text \<open>
  C3. The claim: \<^verbatim>\<open>SHELL\<close> appends \<^verbatim>\<open>SHELL\<close> and the JSON array of
  \<^verbatim>\<open>[executable] + params\<close>, \<^verbatim>\<open>VOLUME\<close> appends \<^verbatim>\<open>VOLUME\<close> and the JSON array of
  \<^verbatim>\<open>[path] + additional_paths\<close>, whatever the number of arguments. What the code does:
  both concatenate a list with the tuple of extra arguments, so every call of either
  method raises \<^verbatim>\<open>TypeError\<close> and appends nothing, also when no extra argument is given.
\<close>

theorem SHELL_VOLUME_raise:
  \<open>SHELL self executable params h =
     (Some (TypeError ''can only concatenate list (not "tuple") to list''), h) \<and>
   VOLUME self path additional_paths h =
     (Some (TypeError ''can only concatenate list (not "tuple") to list''), h)\<close>
  by (simp add: SHELL_def VOLUME_def)

section \<open>\<^verbatim>\<open>FROM\<close>\<close>

text \<open>
  C9. \<^verbatim>\<open>FROM\<close> appends \<^verbatim>\<open>FROM\<close>, a space, the clause \<^verbatim>\<open>--platform=<platform>\<close> when a
  platform is given (with no space after it), the base image, and \<^verbatim>\<open> as <alias>\<close> when
  an alias is given; \<^verbatim>\<open>FROM("python:3.11", as_image="builder")\<close> appends
  \<^verbatim>\<open>FROM python:3.11 as builder\<close>.
\<close>

theorem FROM_format:
  "FROM self base_image None None h = (None, append_line self (''FROM '' @ base_image) h) \<and>
   FROM self base_image (Some alias) None h =
     (None, append_line self (''FROM '' @ base_image @ '' as '' @ alias) h) \<and>
   FROM self base_image None (Some platform) h =
     (None, append_line self (''FROM --platform='' @ platform @ base_image) h) \<and>
   FROM self base_image (Some alias) (Some platform) h =
     (None,
      append_line self (''FROM --platform='' @ platform @ base_image @ '' as '' @ alias) h) \<and>
   get_lines self (snd (FROM self ''python:3.11'' (Some ''builder'') None h)) =
     get_lines self h @ [''FROM python:3.11 as builder'']"
  by (simp add: FROM_def)

section \<open>\<^verbatim>\<open>COPY\<close>\<close>

text \<open>
  C6. With a string \<^verbatim>\<open>src\<close>, \<^verbatim>\<open>COPY\<close> appends \<^verbatim>\<open>COPY\<close>, the clauses \<^verbatim>\<open>--from=<stage>\<close> and
  \<^verbatim>\<open>--chown=<owner>\<close> (each followed by a space, each only when given), then \<^verbatim>\<open>src\<close>, a
  space and \<^verbatim>\<open>dest\<close>. With a list of strings it appends the same clauses followed by the
  JSON array of \<^verbatim>\<open>src + [dest]\<close>. \<^verbatim>\<open>COPY(["a.txt", "b.txt"], "/dest/")\<close> appends
  \<^verbatim>\<open>COPY ["a.txt", "b.txt", "/dest/"]\<close> and \<^verbatim>\<open>COPY("a.txt", "/dest/")\<close> appends
  \<^verbatim>\<open>COPY a.txt /dest/\<close>.
\<close>

theorem COPY_format:
  \<open>COPY self (PStr src) dest None None h =
     (None, append_line self (''COPY '' @ src @ '' '' @ dest) h) \<and>
   COPY self (PStr src) dest (Some stage) None h =
     (None, append_line self (''COPY --from='' @ stage @ '' '' @ src @ '' '' @ dest) h) \<and>
   COPY self (PStr src) dest None (Some owner) h =
     (None, append_line self (''COPY --chown='' @ owner @ '' '' @ src @ '' '' @ dest) h) \<and>
   COPY self (PStr src) dest (Some stage) (Some owner) h =
     (None, append_line self
        (''COPY --from='' @ stage @ '' --chown='' @ owner @ '' '' @ src @ '' '' @ dest) h) \<and>
   json_dumps (PList (map PStr (srcs @ [dest]))) =
     Inr (''['' @ str_join '', '' (map py_encode_basestring_ascii (srcs @ [dest])) @ '']'') \<and>
   COPY self (PList (map PStr srcs)) dest None None h =
     (None, append_line self
        (''COPY '' @ ''[''
           @ str_join '', '' (map py_encode_basestring_ascii (srcs @ [dest])) @ '']'') h) \<and>
   COPY self (PList (map PStr srcs)) dest (Some stage) None h =
     (None, append_line self
        (''COPY --from='' @ stage @ '' '' @ ''[''
           @ str_join '', '' (map py_encode_basestring_ascii (srcs @ [dest])) @ '']'') h) \<and>
   COPY self (PList (map PStr srcs)) dest None (Some owner) h =
     (None, append_line self
        (''COPY --chown='' @ owner @ '' '' @ ''[''
           @ str_join '', '' (map py_encode_basestring_ascii (srcs @ [dest])) @ '']'') h) \<and>
   COPY self (PList (map PStr srcs)) dest (Some stage) (Some owner) h =
     (None, append_line self
        (''COPY --from='' @ stage @ '' --chown='' @ owner @ '' '' @ ''[''
           @ str_join '', '' (map py_encode_basestring_ascii (srcs @ [dest])) @ '']'') h) \<and>
   get_lines self (snd (COPY self (PList [PStr ''a.txt'', PStr ''b.txt'']) ''/dest/'' None None h)) =
     get_lines self h @ [''COPY ["a.txt", "b.txt", "/dest/"]''] \<and>
   get_lines self (snd (COPY self (PStr ''a.txt'') ''/dest/'' None None h)) =
     get_lines self h @ [''COPY a.txt /dest/'']\<close>
proof -
  have ex: \<open>json_dumps (PList [PStr ''a.txt'', PStr ''b.txt'', PStr ''/dest/'']) =
      Inr ''["a.txt", "b.txt", "/dest/"]''\<close>
    by code_simp
  have ex': \<open>get_lines self
      (snd (COPY self (PList [PStr ''a.txt'', PStr ''b.txt'']) ''/dest/'' None None h)) =
     get_lines self h @ [''COPY ["a.txt", "b.txt", "/dest/"]'']\<close>
    unfolding COPY_def by (simp add: ex del: json_dumps.simps)
  have arr: "json_dumps (PList (map PStr srcs @ [PStr dest])) =
      Inr (''['' @ str_join '', '' (map py_encode_basestring_ascii (srcs @ [dest])) @ '']'')"
    using json_dumps_strs [of "srcs @ [dest]"] by simp
  have lists:
    "COPY self (PList (map PStr srcs)) dest None None h =
     (None, append_line self
        (''COPY '' @ ''[''
           @ str_join '', '' (map py_encode_basestring_ascii (srcs @ [dest])) @ '']'') h)"
    "COPY self (PList (map PStr srcs)) dest (Some stage) None h =
     (None, append_line self
        (''COPY --from='' @ stage @ '' '' @ ''[''
           @ str_join '', '' (map py_encode_basestring_ascii (srcs @ [dest])) @ '']'') h)"
    "COPY self (PList (map PStr srcs)) dest None (Some owner) h =
     (None, append_line self
        (''COPY --chown='' @ owner @ '' '' @ ''[''
           @ str_join '', '' (map py_encode_basestring_ascii (srcs @ [dest])) @ '']'') h)"
    "COPY self (PList (map PStr srcs)) dest (Some stage) (Some owner) h =
     (None, append_line self
        (''COPY --from='' @ stage @ '' --chown='' @ owner @ '' '' @ ''[''
           @ str_join '', '' (map py_encode_basestring_ascii (srcs @ [dest])) @ '']'') h)"
    unfolding COPY_def by (simp_all add: arr del: json_dumps.simps)
  have strs:
    "COPY self (PStr src) dest None None h =
     (None, append_line self (''COPY '' @ src @ '' '' @ dest) h)"
    "COPY self (PStr src) dest (Some stage) None h =
     (None, append_line self (''COPY --from='' @ stage @ '' '' @ src @ '' '' @ dest) h)"
    "COPY self (PStr src) dest None (Some owner) h =
     (None, append_line self (''COPY --chown='' @ owner @ '' '' @ src @ '' '' @ dest) h)"
    "COPY self (PStr src) dest (Some stage) (Some owner) h =
     (None, append_line self
        (''COPY --from='' @ stage @ '' --chown='' @ owner @ '' '' @ src @ '' '' @ dest) h)"
    "get_lines self (snd (COPY self (PStr ''a.txt'') ''/dest/'' None None h)) =
     get_lines self h @ [''COPY a.txt /dest/'']"
    unfolding COPY_def by simp_all
  have arr': "json_dumps (PList (map PStr (srcs @ [dest]))) =
     Inr (''['' @ str_join '', '' (map py_encode_basestring_ascii (srcs @ [dest])) @ '']'')"
    by (rule json_dumps_strs)
  from strs lists arr' ex' show ?thesis
    by (intro conjI)
qed

text \<open>
  C7, as the claim states it: \<^verbatim>\<open>COPY\<close> raises its \<^verbatim>\<open>ValueError\<close> if and only if \<^verbatim>\<open>src\<close> is
  neither a string nor a list of strings. The list \<^verbatim>\<open>[1]\<close> is neither, and
  \<^verbatim>\<open>COPY([1], "/dest/")\<close> raises nothing: the method tests \<^verbatim>\<open>isinstance(src, list)\<close> and
  never looks at the items.
\<close>

theorem COPY_raises_counterexample:
  "\<not> (isinstance_str (PList [PInt 1]) \<or> is_list_of_str (PList [PInt 1])) \<and>
   fst (COPY 0 (PList [PInt 1]) ''/dest/'' None None empty_heap) = None"
proof -
  have ex: \<open>json_dumps (PList [PInt 1, PStr ''/dest/'']) = Inr ''[1, "/dest/"]''\<close>
    by code_simp
  show ?thesis
    unfolding COPY_def by (simp add: ex del: json_dumps.simps)
qed

text \<open>It appends the JSON array of the items and \<^verbatim>\<open>dest\<close> instead.\<close>

lemma COPY_list_of_int:
  \<open>COPY self (PList [PInt 1]) ''/dest/'' None None h =
     (None, append_line self ''COPY [1, "/dest/"]'' h)\<close>
proof -
  have ex: \<open>json_dumps (PList [PInt 1, PStr ''/dest/'']) = Inr ''[1, "/dest/"]''\<close>
    by code_simp
  show ?thesis
    unfolding COPY_def by (simp add: ex del: json_dumps.simps)
qed

text \<open>
  With a list \<^verbatim>\<open>src\<close> the outcome of \<^verbatim>\<open>COPY\<close> is that of \<^verbatim>\<open>json.dumps(src + [dest])\<close>: the
  line is appended when it returns, and its exception goes to the caller, with nothing
  appended, when it raises.
\<close>

lemma COPY_list_src:
  "isinstance_list src \<Longrightarrow>
     COPY self src dest from_stage chown h =
       (case json_dumps (PList (list_items src @ [PStr dest])) of
          Inl e \<Rightarrow> (Some e, h)
        | Inr array \<Rightarrow>
            (None,
             append_line self
               (''COPY '' @ (case from_stage of Some f \<Rightarrow> ''--from='' @ f @ '' '' | None \<Rightarrow> '''')
                  @ (case chown of Some c \<Rightarrow> ''--chown='' @ c @ '' '' | None \<Rightarrow> '''')
                  @ array) h))"
  by (cases src) (simp_all add: COPY_def Let_def del: json_dumps.simps split: sum.splits)

text \<open>
  Such exceptions exist: a \<^verbatim>\<open>bytes\<close> item gives \<^verbatim>\<open>TypeError\<close>, a list that contains itself
  gives \<^verbatim>\<open>ValueError\<close>, and so does an integer item of more than 4300 digits, such as
  \<^verbatim>\<open>10 ** k\<close> for \<open>k\<close> from 4300 on.
\<close>

lemma length_str_nat_times_10: "0 < n \<Longrightarrow> length (str_nat (10 * n)) = Suc (length (str_nat n))"
  by (subst str_nat.simps) simp

lemma length_str_nat_power: "length (str_nat (10 ^ k)) = Suc k"
proof (induction k)
  case 0
  show ?case by (simp add: str_nat.simps)
next
  case (Suc k)
  then show ?case using length_str_nat_times_10 [of "10 ^ k"] by simp
qed

lemma int_repr_power:
  "int_max_str_digits \<le> k \<Longrightarrow>
     int_repr (10 ^ k) =
       Inl (ValueError (''Exceeds the limit (4300 digits) for integer string conversion; ''
         @ ''use sys.set_int_max_str_digits() to increase the limit''))"
proof -
  assume k: "int_max_str_digits \<le> k"
  have "str_nat (nat \<bar>10 ^ k :: int\<bar>) = str_nat (10 ^ k)"
    by (simp add: nat_power_eq)
  then have "length (str_nat (nat \<bar>10 ^ k :: int\<bar>)) = Suc k"
    by (simp only: length_str_nat_power)
  with k show ?thesis
    by (simp add: int_repr_def)
qed

lemma COPY_json_errors:
  "COPY self (PList [PObject ''bytes'']) dest from_stage chown h =
     (Some (TypeError ''Object of type bytes is not JSON serializable''), h)"
  "COPY self (PSelfList [] []) dest from_stage chown h =
     (Some (ValueError ''Circular reference detected''), h)"
  "int_max_str_digits \<le> k \<Longrightarrow>
     COPY self (PList [PInt (10 ^ k)]) dest from_stage chown h =
       (Some (ValueError (''Exceeds the limit (4300 digits) for integer string conversion; ''
          @ ''use sys.set_int_max_str_digits() to increase the limit'')), h)"
  by (simp_all add: COPY_list_src int_repr_power)

text \<open>
  C7, amended: \<^verbatim>\<open>COPY\<close> raises its own error, the \<^verbatim>\<open>ValueError\<close> with the message
  \<^verbatim>\<open>src must be of type str or list\<close>, if and only if \<^verbatim>\<open>src\<close> is neither a string nor a list
  (whatever the items of the list are); and whenever \<^verbatim>\<open>COPY\<close> raises, this error or one
  that \<^verbatim>\<open>json.dumps\<close> raised on the list, the store, and with it the builder's line
  sequence, is exactly as it was before the call.
\<close>

theorem COPY_raises_iff:
  "(fst (COPY self src dest from_stage chown h) =
      Some (ValueError ''src must be of type str or list'')
      \<longleftrightarrow> \<not> (isinstance_str src \<or> isinstance_list src)) \<and>
   (fst (COPY self src dest from_stage chown h) \<noteq> None
      \<longrightarrow> snd (COPY self src dest from_stage chown h) = h)"
proof (cases "isinstance_list src")
  case True
  then have "\<not> isinstance_str src" by (cases src) simp_all
  with True show ?thesis
    using json_error_not_src_error(1) [of "PList (list_items src @ [PStr dest])"]
    by (auto simp add: COPY_list_src simp del: json_dumps.simps split: sum.splits)
next
  case False
  then show ?thesis by (cases src) (simp_all add: COPY_def Let_def)
qed

theorem COPY_raises_iff_witness:
  "fst (COPY 0 (PInt 42) ''/dest/'' None None empty_heap) \<noteq> None \<and>
   \<not> (isinstance_str (PInt 42) \<or> isinstance_list (PInt 42)) \<and>
   fst (COPY 0 (PInt 42) ''/dest/'' None None empty_heap) =
     Some (ValueError ''src must be of type str or list'') \<and>
   snd (COPY 0 (PInt 42) ''/dest/'' None None empty_heap) = empty_heap"
  using COPY_raises_iff [of 0 "PInt 42" "''/dest/''" None None empty_heap]
  by (simp add: COPY_def)

section \<open>Rendering\<close>

text \<open>
  C8. \<^verbatim>\<open>__str__\<close> leaves the store as it is, a second call returns the same string, and
  the builder can be mutated afterwards just as before: every directive call and every
  include does after a render what it does without it.
\<close>

theorem render_pure:
  "snd (Dockerfile_str self h) = h \<and>
   fst (Dockerfile_str self (snd (Dockerfile_str self h))) = fst (Dockerfile_str self h) \<and>
   apply_op self x (snd (Dockerfile_str self h)) = apply_op self x h \<and>
   get_lines self (snd (WORKDIR self path (snd (Dockerfile_str self h)))) =
     get_lines self h @ [''WORKDIR '' @ path]"
  by (simp add: Dockerfile_str_def WORKDIR_def)

text \<open>
  C4. When a sequence of directive calls on a builder all succeed, each call appended one
  line (the same line whatever the store it runs in), the builder's lines are the former
  ones followed by these in call order, and \<^verbatim>\<open>__str__\<close> returns the former render followed
  by their concatenation, with nothing in between.
\<close>

theorem render_concat:
  assumes "fst (run self (map Directive cs) h) = None"
  shows "\<exists>ls. list_all2 (\<lambda>c l. \<forall>h0. exec self c h0 = (None, append_line self l h0)) cs ls \<and>
           get_lines self (snd (run self (map Directive cs) h)) = get_lines self h @ ls \<and>
           fst (Dockerfile_str self (snd (run self (map Directive cs) h))) =
             fst (Dockerfile_str self h) @ concat ls"
  using assms
proof (induction cs arbitrary: h)
  case Nil
  then show ?case by simp
next
  case (Cons c cs)
  from Cons.prems have ok: "fst (exec self c h) = None"
    by (cases "exec self c h") (auto split: option.splits)
  then obtain l where l: "\<And>h0. exec self c h0 = (None, append_line self l h0)"
    using exec_success by blast
  let ?h1 = "append_line self l h"
  have step: "run self (map Directive (c # cs)) h = run self (map Directive cs) ?h1"
    by (simp add: l)
  with Cons.prems have "fst (run self (map Directive cs) ?h1) = None" by simp
  from Cons.IH [OF this] obtain ls where
    ls: "list_all2 (\<lambda>c l. \<forall>h0. exec self c h0 = (None, append_line self l h0)) cs ls"
      "get_lines self (snd (run self (map Directive cs) ?h1)) = get_lines self ?h1 @ ls"
    by blast
  have "list_all2 (\<lambda>c l. \<forall>h0. exec self c h0 = (None, append_line self l h0))
          (c # cs) (l # ls)"
    using l ls(1) by simp
  moreover have "get_lines self (snd (run self (map Directive (c # cs)) h)) =
      get_lines self h @ (l # ls)"
    using ls(2) step by simp
  ultimately show ?case
    unfolding Dockerfile_str_def str_join_empty_sep
    by (intro exI [of _ "l # ls"]) simp
qed

theorem render_concat_witness:
  "fst (run 0 (map Directive [Call_FROM ''python:3.11'' (Some ''builder'') None,
          Call_WORKDIR ''/app'', Call_CMD ''echo hi'' []])
        (snd (Dockerfile_init None None empty_heap))) = None \<and>
   (\<exists>ls. list_all2 (\<lambda>c l. \<forall>h0. exec 0 c h0 = (None, append_line 0 l h0))
           [Call_FROM ''python:3.11'' (Some ''builder'') None,
            Call_WORKDIR ''/app'', Call_CMD ''echo hi'' []] ls \<and>
         get_lines 0 (snd (run 0 (map Directive [Call_FROM ''python:3.11'' (Some ''builder'') None,
              Call_WORKDIR ''/app'', Call_CMD ''echo hi'' []])
            (snd (Dockerfile_init None None empty_heap)))) =
           get_lines 0 (snd (Dockerfile_init None None empty_heap)) @ ls \<and>
         fst (Dockerfile_str 0 (snd (run 0 (map Directive
              [Call_FROM ''python:3.11'' (Some ''builder'') None,
               Call_WORKDIR ''/app'', Call_CMD ''echo hi'' []])
            (snd (Dockerfile_init None None empty_heap))))) =
           fst (Dockerfile_str 0 (snd (Dockerfile_init None None empty_heap))) @ concat ls)"
proof -
  have ok: "fst (run 0 (map Directive [Call_FROM ''python:3.11'' (Some ''builder'') None,
          Call_WORKDIR ''/app'', Call_CMD ''echo hi'' []])
        (snd (Dockerfile_init None None empty_heap))) = None"
    by (simp add: FROM_def WORKDIR_def CMD_def)
  show ?thesis
    using ok render_concat [OF ok] by blast
qed

text \<open>The same run, evaluated: the three lines come out in call order, with no separator.\<close>

lemma render_concat_example:
  "fst (Dockerfile_str 0 (snd (run 0 (map Directive
          [Call_FROM ''python:3.11'' (Some ''builder'') None,
           Call_WORKDIR ''/app'', Call_CMD ''echo hi'' []])
        (snd (Dockerfile_init None None empty_heap))))) =
     ''FROM python:3.11 as builderWORKDIR /appCMD echo hi''"
  by (simp add: FROM_def WORKDIR_def CMD_def Dockerfile_str_def Dockerfile_init_def new_list_def
      empty_heap_def get_lines_def append_line_def list_append_def)

section \<open>Which calls succeed\<close>

text \<open>
  The directives that build their line from strings alone, and the shell forms of
  \<^verbatim>\<open>CMD\<close>, \<^verbatim>\<open>ENTRYPOINT\<close> and \<^verbatim>\<open>RUN\<close>, succeed on all arguments and append one line.
\<close>

lemma total_directives:
  "\<exists>l. \<forall>h. exec self (Call_ADD src dest chown) h = (None, append_line self l h)"
  "\<exists>l. \<forall>h. exec self (Call_ARG varname default_value) h = (None, append_line self l h)"
  "\<exists>l. \<forall>h. exec self (Call_ENV varname val) h = (None, append_line self l h)"
  "\<exists>l. \<forall>h. exec self (Call_FROM base_image as_image platform) h = (None, append_line self l h)"
  "\<exists>l. \<forall>h. exec self (Call_LABEL key val) h = (None, append_line self l h)"
  "\<exists>l. \<forall>h. exec self (Call_USER user grp) h = (None, append_line self l h)"
  "\<exists>l. \<forall>h. exec self (Call_WORKDIR path) h = (None, append_line self l h)"
  "\<exists>l. \<forall>h. exec self (Call_CMD command []) h = (None, append_line self l h)"
  "\<exists>l. \<forall>h. exec self (Call_ENTRYPOINT command []) h = (None, append_line self l h)"
  "\<exists>l. \<forall>h. exec self (Call_RUN command []) h = (None, append_line self l h)"
  by (auto simp add: ADD_def ARG_def ENV_def FROM_def LABEL_def USER_def WORKDIR_def
      CMD_def ENTRYPOINT_def RUN_def Let_def split: option.splits)

text \<open>
  \<^verbatim>\<open>EXPOSE\<close> formats its port with \<^verbatim>\<open>str\<close>: it succeeds on every port of at most 4300 digits
  and raises \<^verbatim>\<open>ValueError\<close> on a longer one.
\<close>

lemma EXPOSE_cases:
  "EXPOSE self port protocol h =
     (if int_max_str_digits < length (str_nat (nat \<bar>port\<bar>))
      then (Some (ValueError (''Exceeds the limit (4300 digits) for integer string conversion; ''
              @ ''use sys.set_int_max_str_digits() to increase the limit'')), h)
      else (None, append_line self (''EXPOSE '' @ str_int port @ ''/'' @ protocol) h))"
  by (simp add: EXPOSE_def int_repr_def)

text \<open>
  C2. The claim: every method other than \<^verbatim>\<open>COPY\<close> succeeds on well-typed arguments and
  appends one line. What the code does: \<^verbatim>\<open>SHELL("/bin/sh", "-c")\<close>, \<^verbatim>\<open>VOLUME("/data")\<close> and
  \<^verbatim>\<open>RUN("apt-get", "update")\<close> are calls of other methods with string arguments, and each
  raises \<^verbatim>\<open>TypeError\<close> and leaves the store unchanged.
\<close>

theorem non_COPY_call_raises:
  \<open>\<not> is_COPY (Call_SHELL ''/bin/sh'' [''-c'']) \<and>
   exec self (Call_SHELL ''/bin/sh'' [''-c'']) h =
     (Some (TypeError ''can only concatenate list (not "tuple") to list''), h) \<and>
   \<not> is_COPY (Call_VOLUME ''/data'' []) \<and>
   exec self (Call_VOLUME ''/data'' []) h =
     (Some (TypeError ''can only concatenate list (not "tuple") to list''), h) \<and>
   \<not> is_COPY (Call_RUN ''apt-get'' [''update'']) \<and>
   exec self (Call_RUN ''apt-get'' [''update'']) h =
     (Some (TypeError ''can only concatenate list (not "tuple") to list''), h)\<close>
  by (simp add: SHELL_def VOLUME_def RUN_def)

section \<open>Including one builder in another\<close>

text \<open>
  \<^verbatim>\<open>include\<close> never raises; it extends the list object of \<^verbatim>\<open>self\<close> and changes nothing else.
\<close>

lemma include_dockerfile_eq:
  "include_dockerfile self d h =
     (None, h\<lparr>list_val := (list_val h)(obj_lines h self := get_lines self h @ get_lines d h)\<rparr>)"
  by (simp add: include_dockerfile_def list_iadd_def get_lines_def)

lemma apply_op_obj_lines: "obj_lines (snd (apply_op a x h)) = obj_lines h"
proof (cases x)
  case (Directive c)
  then show ?thesis using exec_cases [of a c] by auto
next
  case (Include d)
  then show ?thesis by (simp add: include_dockerfile_eq)
qed

lemma apply_op_counts:
  "nobjs (snd (apply_op a x h)) = nobjs h \<and> nlists (snd (apply_op a x h)) = nlists h"
proof (cases x)
  case (Directive c)
  then show ?thesis using exec_cases [of a c] by auto
next
  case (Include d)
  then show ?thesis by (simp add: include_dockerfile_eq)
qed

lemma apply_op_list_val:
  "l \<noteq> obj_lines h a \<Longrightarrow> list_val (snd (apply_op a x h)) l = list_val h l"
proof (cases x)
  case (Directive c)
  assume "l \<noteq> obj_lines h a"
  with Directive show ?thesis
    using exec_cases [of a c] by (auto simp add: append_line_def list_append_def)
next
  case (Include d)
  assume "l \<noteq> obj_lines h a"
  with Include show ?thesis by (simp add: include_dockerfile_eq)
qed

lemma run_frame:
  "obj_lines (snd (run a xs h)) = obj_lines h \<and>
   nobjs (snd (run a xs h)) = nobjs h \<and> nlists (snd (run a xs h)) = nlists h \<and>
   (l \<noteq> obj_lines h a \<longrightarrow> list_val (snd (run a xs h)) l = list_val h l)"
proof (induction xs arbitrary: h)
  case Nil
  then show ?case by simp
next
  case (Cons x xs)
  obtain r h' where step: "apply_op a x h = (r, h')" by (cases "apply_op a x h")
  have h': "obj_lines h' = obj_lines h" "nobjs h' = nobjs h" "nlists h' = nlists h"
      "l \<noteq> obj_lines h a \<Longrightarrow> list_val h' l = list_val h l"
    using apply_op_obj_lines [of a x h] apply_op_counts [of a x h] apply_op_list_val [of l h a x]
    by (simp_all add: step)
  show ?case
  proof (cases r)
    case None
    then have "run a (x # xs) h = run a xs h'" by (simp add: step)
    then show ?thesis using Cons.IH [of h'] h' by simp
  next
    case (Some e)
    then have "run a (x # xs) h = (Some e, h')" by (simp add: step)
    then show ?thesis using h' by simp
  qed
qed

lemma wf_heap_distinct:
  assumes "wf_heap h" "a < nobjs h" "b < nobjs h" "a \<noteq> b"
  shows "obj_lines h a \<noteq> obj_lines h b"
proof -
  from assms(1) have "inj_on (obj_lines h) (set [0..<nobjs h])"
    by (simp add: wf_heap_def distinct_map)
  with assms(2-4) show ?thesis by (auto simp add: inj_on_def)
qed

lemma wf_heap_empty: "wf_heap empty_heap"
  by (simp add: wf_heap_def empty_heap_def)

lemma wf_heap_init:
  assumes "wf_heap h"
  shows "wf_heap (snd (Dockerfile_init syntax escape h)) \<and>
         fst (Dockerfile_init syntax escape h) = nobjs h \<and>
         nobjs (snd (Dockerfile_init syntax escape h)) = Suc (nobjs h)"
proof -
  let ?h2 = "h\<lparr>nlists := Suc (nlists h), list_val := (list_val h)(nlists h := []),
               nobjs := Suc (nobjs h), obj_lines := (obj_lines h)(nobjs h := nlists h)\<rparr>"
  have all: "\<forall>a\<in>set [0..<nobjs h]. obj_lines h a < nlists h"
    using assms by (simp add: wf_heap_def list_all_iff)
  have "wf_heap ?h2"
    using assms all by (auto simp add: wf_heap_def list_all_iff distinct_map inj_on_def)
  moreover have "\<And>a x h. wf_heap (append_line a x h) = wf_heap h"
    by (simp add: wf_heap_def)
  ultimately show ?thesis
    by (simp add: Dockerfile_init_def new_list_def Let_def split: option.splits)
qed

lemma wf_heap_run: "wf_heap (snd (run a xs h)) = wf_heap h"
  using run_frame [of a xs h] by (simp add: wf_heap_def)

lemma wf_heap_append_line [simp]: "wf_heap (append_line a x h) = wf_heap h"
  by (simp add: wf_heap_def)

lemma two_builders_wf: "wf_heap two_builders \<and> nobjs two_builders = 2"
proof -
  let ?h0 = "snd (Dockerfile_init (Some ''docker/dockerfile:1'') None empty_heap)"
  let ?h1 = "snd (Dockerfile_init None None ?h0)"
  have 0: "wf_heap ?h0 \<and> nobjs ?h0 = 1"
    using wf_heap_init [OF wf_heap_empty, of "Some ''docker/dockerfile:1''" None]
    by (simp add: empty_heap_def)
  then have 1: "wf_heap ?h1 \<and> nobjs ?h1 = 2"
    using wf_heap_init [of ?h0 None None] by simp
  have tb: "two_builders = append_line 1 ''RUN make'' ?h1"
    by (simp add: two_builders_def RUN_def)
  show ?thesis unfolding tb using 1 by simp
qed

lemma two_builders_lines:
  "get_lines 0 two_builders = [''# syntax: docker/dockerfile:1''] \<and>
   get_lines 1 two_builders = [''RUN make'']"
  by (simp add: two_builders_def RUN_def Dockerfile_init_def new_list_def empty_heap_def
      get_lines_def append_line_def list_append_def)

text \<open>
  C5. For two different builders of a well-formed store, \<^verbatim>\<open>target.include(other)\<close> makes the
  render of \<^verbatim>\<open>target\<close> its former render followed by the render \<^verbatim>\<open>other\<close> has at the call,
  and leaves \<^verbatim>\<open>other\<close> as it is; whatever directive calls and includes are then made on
  \<^verbatim>\<open>other\<close> (up to the end of the sequence or to the first exception), the render of
  \<^verbatim>\<open>target\<close> stays the same.
\<close>

theorem include_copies:
  assumes "wf_heap h" and "target < nobjs h" and "other < nobjs h" and "target \<noteq> other"
  shows "fst (include_dockerfile target other h) = None \<and>
         fst (Dockerfile_str target (snd (include_dockerfile target other h))) =
           fst (Dockerfile_str target h) @ fst (Dockerfile_str other h) \<and>
         get_lines other (snd (include_dockerfile target other h)) = get_lines other h \<and>
         fst (Dockerfile_str target (snd (run other xs (snd (include_dockerfile target other h))))) =
           fst (Dockerfile_str target h) @ fst (Dockerfile_str other h)"
proof -
  let ?h1 = "snd (include_dockerfile target other h)"
  have ne: "obj_lines h target \<noteq> obj_lines h other"
    using assms by (rule wf_heap_distinct)
  have lines1: "get_lines target ?h1 = get_lines target h @ get_lines other h"
    by (simp add: include_dockerfile_eq get_lines_def)
  have other1: "get_lines other ?h1 = get_lines other h"
    using ne by (simp add: include_dockerfile_eq get_lines_def)
  have ol1: "obj_lines ?h1 = obj_lines h"
    by (simp add: include_dockerfile_eq)
  have "obj_lines ?h1 target \<noteq> obj_lines ?h1 other"
    using ne ol1 by simp
  then have "get_lines target (snd (run other xs ?h1)) = get_lines target ?h1"
    using run_frame [of other xs ?h1 "obj_lines ?h1 target"] by (simp add: get_lines_def)
  with lines1 other1 show ?thesis
    by (simp add: Dockerfile_str_def str_join_empty_sep include_dockerfile_eq)
qed

theorem include_copies_witness:
  "wf_heap two_builders \<and> 0 < nobjs two_builders \<and> 1 < nobjs two_builders \<and> (0::nat) \<noteq> 1 \<and>
   fst (include_dockerfile 0 1 two_builders) = None \<and>
   fst (Dockerfile_str 0 (snd (include_dockerfile 0 1 two_builders))) =
     fst (Dockerfile_str 0 two_builders) @ fst (Dockerfile_str 1 two_builders) \<and>
   get_lines 1 (snd (include_dockerfile 0 1 two_builders)) = get_lines 1 two_builders \<and>
   fst (Dockerfile_str 0
      (snd (run 1 [Directive (Call_WORKDIR ''/app''), Include 0, Include 1]
         (snd (include_dockerfile 0 1 two_builders))))) =
     fst (Dockerfile_str 0 two_builders) @ fst (Dockerfile_str 1 two_builders)"
proof -
  have wf: "wf_heap two_builders" and n0: "0 < nobjs two_builders"
    and n1: "1 < nobjs two_builders"
    using two_builders_wf by simp_all
  have ne: "(0::nat) \<noteq> 1" by simp
  show ?thesis
    using wf n0 n1 ne
      include_copies [OF wf n0 n1 ne, of "[Directive (Call_WORKDIR ''/app''), Include 0, Include 1]"]
    by blast
qed

text \<open>
  C10. \<^verbatim>\<open>b.include(b)\<close> does not raise and doubles the lines of \<^verbatim>\<open>b\<close>: the render becomes the
  former render twice. A directive call that succeeds afterwards appends its one line, the
  line it would have appended without the include, once.
\<close>

theorem include_self:
  "fst (include_dockerfile b b h) = None \<and>
   get_lines b (snd (include_dockerfile b b h)) = get_lines b h @ get_lines b h \<and>
   fst (Dockerfile_str b (snd (include_dockerfile b b h))) =
     fst (Dockerfile_str b h) @ fst (Dockerfile_str b h) \<and>
   (fst (exec b c (snd (include_dockerfile b b h))) = None \<longrightarrow>
      (\<exists>l. exec b c h = (None, append_line b l h) \<and>
           get_lines b (snd (exec b c (snd (include_dockerfile b b h)))) =
             get_lines b h @ get_lines b h @ [l]))"
proof -
  let ?h1 = "snd (include_dockerfile b b h)"
  have lines1: "get_lines b ?h1 = get_lines b h @ get_lines b h"
    by (simp add: include_dockerfile_eq get_lines_def)
  have "fst (exec b c ?h1) = None \<longrightarrow>
      (\<exists>l. exec b c h = (None, append_line b l h) \<and>
           get_lines b (snd (exec b c ?h1)) = get_lines b h @ get_lines b h @ [l])"
  proof
    assume "fst (exec b c ?h1) = None"
    then obtain l where l: "\<And>h0. exec b c h0 = (None, append_line b l h0)"
      using exec_success by blast
    then have "get_lines b (snd (exec b c ?h1)) = get_lines b h @ get_lines b h @ [l]"
      using lines1 by simp
    with l show "\<exists>l. exec b c h = (None, append_line b l h) \<and>
           get_lines b (snd (exec b c ?h1)) = get_lines b h @ get_lines b h @ [l]"
      by blast
  qed
  then show ?thesis
    using lines1 by (simp add: Dockerfile_str_def str_join_empty_sep include_dockerfile_eq)
qed

theorem include_self_witness:
  "fst (exec 1 (Call_WORKDIR ''/app'') (snd (include_dockerfile 1 1 two_builders))) = None \<and>
   fst (include_dockerfile 1 1 two_builders) = None \<and>
   get_lines 1 (snd (include_dockerfile 1 1 two_builders)) = [''RUN make'', ''RUN make''] \<and>
   fst (Dockerfile_str 1 (snd (include_dockerfile 1 1 two_builders))) = ''RUN makeRUN make'' \<and>
   get_lines 1 (snd (exec 1 (Call_WORKDIR ''/app'') (snd (include_dockerfile 1 1 two_builders)))) =
     [''RUN make'', ''RUN make'', ''WORKDIR /app'']"
proof -
  have ok: "fst (exec 1 (Call_WORKDIR ''/app'') (snd (include_dockerfile 1 1 two_builders))) = None"
    by (simp add: WORKDIR_def)
  have l: "get_lines 1 two_builders = [''RUN make'']"
    using two_builders_lines by simp
  have r: "fst (Dockerfile_str 1 two_builders) = ''RUN make''"
    using l by (simp add: Dockerfile_str_def)
  show ?thesis
    using ok l r include_self [of 1 two_builders "Call_WORKDIR ''/app''"]
    by (simp add: WORKDIR_def)
qed

end
